theory Spec2Isabelle
  imports Main "HOL-Library.Word" "HOL-Library.Sublist"
begin

section \<open>The SubAccount client of the Incapsula provider\<close>

text \<open>
  A shallow embedding of \<^verbatim>\<open>incapsula/client_subaccount.go\<close>: the three operations
  \<^verbatim>\<open>AddSubAccount\<close>, \<^verbatim>\<open>GetSubAccount\<close> (with its page fetch
  \<^verbatim>\<open>sendListSubAccountsRequest\<close>) and \<^verbatim>\<open>DeleteSubAccount\<close>.

  \<^item> Go's \<^verbatim>\<open>int\<close> is a 64-bit two's complement integer on the 64-bit targets: a
    \<open>64 word\<close>, where \<open>+\<close> wraps around and \<open>sint\<close> reads the signed value.
  \<^item> A Go \<^verbatim>\<open>string\<close> and a \<^verbatim>\<open>[]byte\<close> are byte sequences: \<open>string\<close>.
  \<^item> Every \<^verbatim>\<open>error\<close> this file makes comes from \<^verbatim>\<open>fmt.Errorf\<close> with the verbs
    \<^verbatim>\<open>%s\<close> and \<^verbatim>\<open>%d\<close> only, so an error is its message text. A result
    \<^verbatim>\<open>(x, nil)\<close> is \<open>Inr x\<close>, a result \<^verbatim>\<open>(nil, err)\<close> is \<open>Inl err\<close>.
  \<^item> The HTTP transport \<^verbatim>\<open>c.PostFormWithHeaders\<close> and \<^verbatim>\<open>json.Unmarshal\<close> are not
    part of this file. They are parameters of the model: any transport, any decoder.
  \<^item> The effect of an operation on the outside world is the list of the requests it
    posts; each operation takes the requests posted so far and returns them extended.
  \<^item> \<^verbatim>\<open>log.Printf\<close> and \<^verbatim>\<open>resp.Body.Close\<close> have no influence on a result and are
    left out. The payload pointer given to \<^verbatim>\<open>AddSubAccount\<close> is taken non-nil (the
    function dereferences it on its first line).
\<close>

subsection \<open>Integers, errors and formatting\<close>

type_synonym go_int = "64 word"

type_synonym error = string

text \<open>Decimal digits of a natural number, most significant first.\<close>

fun digits :: "nat \<Rightarrow> string" where
  "digits n =
     (if n < 10 then [''0123456789'' ! n]
      else digits (n div 10) @ [''0123456789'' ! (n mod 10)])"

declare digits.simps [simp del]

text \<open>
  \<^verbatim>\<open>strconv.Itoa(i)\<close>, and what \<^verbatim>\<open>fmt.Sprint(i)\<close> and the verb \<^verbatim>\<open>%d\<close> print for
  an \<^verbatim>\<open>int\<close>: the signed decimal representation.
\<close>

definition Itoa :: "go_int \<Rightarrow> string" where
  "Itoa i = (if sint i < 0 then CHR ''-'' # digits (nat (- sint i)) else digits (nat (sint i)))"

subsection \<open>Constants\<close>

definition endpointSubAccountAdd :: string where
  "endpointSubAccountAdd = ''subaccounts/add''"

definition endpointSubAccountList :: string where
  "endpointSubAccountList = ''accounts/listSubAccounts''"

definition endpointSubAccountDelete :: string where
  "endpointSubAccountDelete = ''subaccounts/delete''"

text \<open>
  \<^verbatim>\<open>const PAGE_SIZE = 50\<close> is an untyped constant. It is compared with a slice length
  (never negative, a \<open>nat\<close> here) and printed into the form.
\<close>

definition PAGE_SIZE :: nat where
  "PAGE_SIZE = 50"

subsection \<open>Entities\<close>

record SubAccountPayload =
  SubAccountName :: string
  RefID :: string
  LogLevel :: string
  ParentID :: go_int
  LogsAccountID :: go_int

text \<open>
  \<^verbatim>\<open>SubAccount\<close> embeds a pointer \<^verbatim>\<open>*SubAccountPayload\<close>, which may be nil.
\<close>

record SubAccount =
  SubAccountID :: go_int
  SubAccountPayload :: "SubAccountPayload option"

record SubAccountAddResponse =
  SubAccount :: SubAccount
  Res :: go_int

record SubAccountListResponse =
  SubAccounts :: "SubAccount list"
  Res :: go_int

text \<open>The response type declared inside \<^verbatim>\<open>DeleteSubAccount\<close>.\<close>

record SubAccountDeleteResponse =
  Res :: go_int
  ResMessage :: string

subsection \<open>The transport and the JSON decoder\<close>

text \<open>
  Modelled from the spec: the operation identifiers \<^verbatim>\<open>CreateSubAccount\<close>,
  \<^verbatim>\<open>ReadSubAccount\<close> and \<^verbatim>\<open>DeleteSubAccount\<close> are constants declared outside this
  file (``each call is tagged with an operation identifier passed to the transport
  primitive''). The third is written \<open>DeleteSubAccountOperation\<close>, since the operation
  of the same name is defined below.
\<close>

datatype operation = CreateSubAccount | ReadSubAccount | DeleteSubAccountOperation

text \<open>\<^verbatim>\<open>url.Values\<close> is a \<^verbatim>\<open>map[string][]string\<close>.\<close>

type_synonym url_Values = "string \<rightharpoonup> string list"

text \<open>One call of \<^verbatim>\<open>PostFormWithHeaders(url, data, operation)\<close>.\<close>

record request =
  url :: string
  data :: url_Values
  operation :: operation

text \<open>
  A response, as far as this file looks at it: the pair that
  \<^verbatim>\<open>ioutil.ReadAll(resp.Body)\<close> returns, the bytes read and the error that ended the
  reading, if any. \<^verbatim>\<open>ReadAll\<close> returns the bytes it has read also when it fails.
\<close>

record Response =
  Body :: string
  ReadErr :: "error option"

record Client =
  BaseURL :: string
  PostFormWithHeaders :: "string \<Rightarrow> url_Values \<Rightarrow> operation \<Rightarrow> error + Response"

text \<open>
  \<^verbatim>\<open>json.Unmarshal\<close> at the three types it is called with. The decoder gives either its
  error or the decoded value.
\<close>

record json =
  Unmarshal_SubAccountAddResponse :: "string \<Rightarrow> error + SubAccountAddResponse"
  Unmarshal_SubAccountListResponse :: "string \<Rightarrow> error + SubAccountListResponse"
  Unmarshal_SubAccountDeleteResponse :: "string \<Rightarrow> error + SubAccountDeleteResponse"

subsection \<open>AddSubAccount\<close>

text \<open>The form body that \<^verbatim>\<open>AddSubAccount\<close> builds (lines 48 to 70 of the source).\<close>

definition AddSubAccount_values :: "SubAccountPayload \<Rightarrow> url_Values" where
  "AddSubAccount_values subAccountPayload =
     (let values = [''sub_account_name'' \<mapsto> [SubAccountName subAccountPayload]];
          values = (if RefID subAccountPayload \<noteq> ''''
                    then values(''ref_id'' \<mapsto> [RefID subAccountPayload]) else values);
          values = (if ParentID subAccountPayload \<noteq> 0
                    then values(''parent_id'' \<mapsto> [Itoa (ParentID subAccountPayload)]) else values);
          values = (if LogsAccountID subAccountPayload \<noteq> 0
                    then values(''logs_account_id'' \<mapsto> [Itoa (LogsAccountID subAccountPayload)])
                    else values);
          values = (if LogLevel subAccountPayload \<noteq> ''''
                    then values(''log_level'' \<mapsto> [LogLevel subAccountPayload]) else values)
      in values)"

definition AddSubAccount ::
  "json \<Rightarrow> Client \<Rightarrow> SubAccountPayload \<Rightarrow> request list
    \<Rightarrow> (error + SubAccountAddResponse) \<times> request list" where
  "AddSubAccount j c subAccountPayload posted =
     (let values = AddSubAccount_values subAccountPayload;
          target = BaseURL c @ ''/'' @ endpointSubAccountAdd;
          posted = posted @ [\<lparr>url = target, data = values, operation = CreateSubAccount\<rparr>]
      in case PostFormWithHeaders c target values CreateSubAccount of
           Inl err \<Rightarrow>
             (Inl (''Error adding subaccount '' @ SubAccountName subAccountPayload
                     @ '': '' @ err), posted)
         | Inr resp \<Rightarrow>
             (let responseBody = Body resp in
              case Unmarshal_SubAccountAddResponse j responseBody of
                Inl err \<Rightarrow>
                  (Inl (''Error parsing add subaccount JSON response for subaccount ''
                          @ SubAccountName subAccountPayload @ '': '' @ err), posted)
              | Inr subAccountAddResponse \<Rightarrow>
                  if SubAccountAddResponse.Res subAccountAddResponse \<noteq> 0
                  then (Inl (''Error from Incapsula service when adding subaccount ''
                               @ SubAccountName subAccountPayload @ '': '' @ responseBody), posted)
                  else (Inr subAccountAddResponse, posted)))"

subsection \<open>GetSubAccount\<close>

text \<open>The form body of a page fetch (lines 133 to 142 of the source).\<close>

definition sendListSubAccountsRequest_values :: "go_int \<Rightarrow> go_int \<Rightarrow> url_Values" where
  "sendListSubAccountsRequest_values accountId pageNum =
     (let values = Map.empty;
          values = (if accountId \<noteq> 0 then values(''account_id'' \<mapsto> [Itoa accountId]) else values);
          values = values(''page_num'' \<mapsto> [Itoa pageNum]);
          values = values(''page_size'' \<mapsto> [Itoa (of_nat PAGE_SIZE)])
      in values)"

definition sendListSubAccountsRequest ::
  "json \<Rightarrow> Client \<Rightarrow> go_int \<Rightarrow> go_int \<Rightarrow> request list
    \<Rightarrow> (error + SubAccount list) \<times> request list" where
  "sendListSubAccountsRequest j c accountId pageNum posted =
     (let values = sendListSubAccountsRequest_values accountId pageNum;
          target = BaseURL c @ ''/'' @ endpointSubAccountList;
          posted = posted @ [\<lparr>url = target, data = values, operation = ReadSubAccount\<rparr>]
      in case PostFormWithHeaders c target values ReadSubAccount of
           Inl err \<Rightarrow>
             (Inl (''Error getting subaccounts for account '' @ Itoa accountId
                     @ '': '' @ err), posted)
         | Inr resp \<Rightarrow>
             (let responseBody = Body resp in
              case Unmarshal_SubAccountListResponse j responseBody of
                Inl err \<Rightarrow>
                  (Inl (''Error parsing subaccounts list JSON response for accountid: ''
                          @ Itoa accountId @ '' '' @ err @ [CHR 0x0A] @ ''response: ''
                          @ responseBody), posted)
              | Inr subAccountListResponse \<Rightarrow>
                  (Inr (SubAccounts subAccountListResponse), posted)))"

text \<open>
  The pagination loop of \<^verbatim>\<open>GetSubAccount\<close> (lines 113 to 127), with its variables
  \<^verbatim>\<open>shouldFetch\<close> and \<^verbatim>\<open>count\<close>. Nothing bounds the number of rounds, so the loop is
  a partial function: \<open>None\<close> means that it does not return.
\<close>

partial_function (option) GetSubAccount_loop ::
  "json \<Rightarrow> Client \<Rightarrow> go_int \<Rightarrow> go_int \<Rightarrow> bool \<Rightarrow> go_int \<Rightarrow> request list
    \<Rightarrow> ((error + SubAccount option) \<times> request list) option" where
  "GetSubAccount_loop j c parentAccountID subAccountID shouldFetch count posted =
     (if shouldFetch then
        (case sendListSubAccountsRequest j c parentAccountID count posted of
           (Inl err, posted') \<Rightarrow> Some (Inl err, posted')
         | (Inr subAccounts, posted') \<Rightarrow>
             (case find (\<lambda>subAccount. SubAccountID subAccount = subAccountID) subAccounts of
                Some subAccount \<Rightarrow> Some (Inr (Some subAccount), posted')
              | None \<Rightarrow>
                  GetSubAccount_loop j c parentAccountID subAccountID
                    (length subAccounts = PAGE_SIZE) (count + 1) posted'))
      else Some (Inr None, posted))"

definition GetSubAccount ::
  "json \<Rightarrow> Client \<Rightarrow> go_int \<Rightarrow> go_int \<Rightarrow> request list
    \<Rightarrow> ((error + SubAccount option) \<times> request list) option" where
  "GetSubAccount j c parentAccountID subAccountID posted =
     GetSubAccount_loop j c parentAccountID subAccountID True 0 posted"

subsection \<open>DeleteSubAccount\<close>

definition DeleteSubAccount ::
  "json \<Rightarrow> Client \<Rightarrow> go_int \<Rightarrow> request list \<Rightarrow> error option \<times> request list" where
  "DeleteSubAccount j c subAccountID posted =
     (let values = [''sub_account_id'' \<mapsto> [Itoa subAccountID]];
          target = BaseURL c @ ''/'' @ endpointSubAccountDelete;
          posted = posted @ [\<lparr>url = target, data = values, operation = DeleteSubAccountOperation\<rparr>]
      in case PostFormWithHeaders c target values DeleteSubAccountOperation of
           Inl err \<Rightarrow>
             (Some (''Error deleting subaccount id: '' @ Itoa subAccountID @ '': '' @ err), posted)
         | Inr resp \<Rightarrow>
             (let responseBody = Body resp in
              case Unmarshal_SubAccountDeleteResponse j responseBody of
                Inl err \<Rightarrow>
                  (Some (''Error parsing delete account JSON response for subaccount id: ''
                           @ Itoa subAccountID @ '': '' @ err), posted)
              | Inr subaccountDeleteResponse \<Rightarrow>
                  if SubAccountDeleteResponse.Res subaccountDeleteResponse \<noteq> 0
                  then (Some (''Error from Incapsula service when deleting subaccount id: ''
                                @ Itoa subAccountID @ '': '' @ responseBody), posted)
                  else (None, posted)))"

subsection \<open>Page fetches as seen by the scan\<close>

text \<open>
  The request a page fetch posts, and its result. A page fetch does not look at the
  requests posted before it, so its result is taken at the empty history.
\<close>

definition list_request :: "Client \<Rightarrow> go_int \<Rightarrow> go_int \<Rightarrow> request" where
  "list_request c accountId pageNum =
     \<lparr>url = BaseURL c @ ''/'' @ endpointSubAccountList,
      data = sendListSubAccountsRequest_values accountId pageNum, operation = ReadSubAccount\<rparr>"

definition page_result :: "json \<Rightarrow> Client \<Rightarrow> go_int \<Rightarrow> go_int \<Rightarrow> error + SubAccount list" where
  "page_result j c accountId pageNum = fst (sendListSubAccountsRequest j c accountId pageNum [])"

text \<open>
  The page is fetched and decoded, has exactly \<^verbatim>\<open>PAGE_SIZE\<close> entries, and none of
  them has the wanted ID: the one case in which the loop goes on.
\<close>

definition full_page_without :: "json \<Rightarrow> Client \<Rightarrow> go_int \<Rightarrow> go_int \<Rightarrow> go_int \<Rightarrow> bool" where
  "full_page_without j c accountId subAccountID pageNum =
     (case page_result j c accountId pageNum of
        Inl err \<Rightarrow> False
      | Inr subAccounts \<Rightarrow>
          length subAccounts = PAGE_SIZE
          \<and> find (\<lambda>subAccount. SubAccountID subAccount = subAccountID) subAccounts = None)"

text \<open>The \<open>n\<close> requests of a scan that starts at page \<open>count\<close>.\<close>

definition pages_requested :: "Client \<Rightarrow> go_int \<Rightarrow> go_int \<Rightarrow> nat \<Rightarrow> request list" where
  "pages_requested c accountId count n =
     map (\<lambda>k. list_request c accountId (count + of_nat k)) [0..<n]"

subsection \<open>Struct tags and JSON keys\<close>






text \<open>
  How Go reads a struct tag. The functions of this subsection are not code of this
  repository: they transcribe the Go standard library, which the declarations above
  are read by, and no file of the repository holds them. They are
  \<^verbatim>\<open>reflect.StructTag.Lookup\<close> and \<^verbatim>\<open>Get\<close> (\<^verbatim>\<open>reflect/type.go\<close>),
  \<^verbatim>\<open>strconv.Unquote\<close>, and \<^verbatim>\<open>parseTag\<close>, \<^verbatim>\<open>tagOptions.Contains\<close>, \<^verbatim>\<open>isValidTag\<close> and
  the naming step of \<^verbatim>\<open>typeFields\<close> (\<^verbatim>\<open>encoding/json\<close>).

  \<^verbatim>\<open>Lookup\<close> goes through the tag, one \<^verbatim>\<open>name:"value"\<close> pair per round, and stops at
  the first text that is not such a pair.
\<close>

definition tag_name_char :: "char \<Rightarrow> bool" where
  "tag_name_char ch =
     ((of_char ch :: nat) > 0x20 \<and> ch \<noteq> CHR '':'' \<and> ch \<noteq> CHR 0x22 \<and> ch \<noteq> CHR 0x7F)"

text \<open>The index of the quote that closes the quoted string, scanning from index \<open>i\<close>.\<close>

function scan_quoted :: "string \<Rightarrow> nat \<Rightarrow> nat" where
  "scan_quoted tag i =
     (if i < length tag \<and> tag ! i \<noteq> CHR 0x22
      then scan_quoted tag (if tag ! i = CHR 0x5C then i + 2 else i + 1)
      else i)"
  by pat_completeness auto
termination
  by (relation "measure (\<lambda>(tag, i). length tag - i)") auto

declare scan_quoted.simps [simp del]

text \<open>
  \<^verbatim>\<open>strconv.Unquote\<close> on a string in double quotes without backslash, newline or byte
  outside ASCII: the text between the quotes. Values with escape sequences are outside
  this model (an error here); no tag of this file has one.
\<close>

definition Unquote :: "string \<Rightarrow> string option" where
  "Unquote s =
     (if 2 \<le> length s \<and> hd s = CHR 0x22 \<and> last s = CHR 0x22
         \<and> list_all (\<lambda>ch. ch \<noteq> CHR 0x5C \<and> ch \<noteq> CHR 0x0A \<and> ch \<noteq> CHR 0x22
                            \<and> (of_char ch :: nat) < 0x80) (butlast (tl s))
      then Some (butlast (tl s)) else None)"

function Lookup :: "string \<Rightarrow> string \<Rightarrow> string option" where
  "Lookup tag key =
     (let tag = dropWhile (\<lambda>ch. ch = CHR '' '') tag in
      if tag = [] then None
      else
        let i = length (takeWhile tag_name_char tag) in
        if i = 0 \<or> length tag \<le> i + 1 \<or> tag ! i \<noteq> CHR '':'' \<or> tag ! (i + 1) \<noteq> CHR 0x22
        then None
        else
          let name = take i tag;
              tag = drop (i + 1) tag;
              i = scan_quoted tag 1
          in if length tag \<le> i then None
             else
               let qvalue = take (i + 1) tag;
                   tag = drop (i + 1) tag
               in if key = name then Unquote qvalue else Lookup tag key)"
  by pat_completeness auto
termination
proof (relation "measure (\<lambda>(tag, key). length tag)")
  show "wf (measure (\<lambda>(tag, key). length tag))" by simp
next
  fix tag key :: string and x xa xb xc xd xe xf
  assume x: "x = dropWhile (\<lambda>ch. ch = CHR '' '') tag" and nonempty: "x \<noteq> []"
    and xc: "xc = drop (xa + 1) x" and xf: "xf = drop (xd + 1) xc"
  have "length x \<le> length tag"
    unfolding x by (rule length_dropWhile_le)
  moreover have "0 < length x"
    using nonempty by simp
  moreover have "length xf = length x - (xa + 1) - (xd + 1)"
    by (simp add: xc xf)
  ultimately have "length xf < length tag"
    by arith
  then show "((xf, key), (tag, key)) \<in> measure (\<lambda>(tag, key). length tag)"
    by simp
qed

declare Lookup.simps [simp del]










section \<open>Concrete payloads, transports and decoders\<close>

text \<open>Instances on which the theorems below are evaluated.\<close>

definition payload_name_only :: SubAccountPayload where
  "payload_name_only =
     \<lparr>SubAccountName = ''x'', RefID = '''', LogLevel = '''', ParentID = 0, LogsAccountID = 0\<rparr>"

definition payload_all_set :: SubAccountPayload where
  "payload_all_set =
     \<lparr>SubAccountName = ''x'', RefID = ''r7'', LogLevel = ''full'', ParentID = 12,
      LogsAccountID = 34\<rparr>"

text \<open>A transport whose every call fails, and a decoder that rejects every body.\<close>

definition client_down :: Client where
  "client_down =
     \<lparr>BaseURL = ''https://my.incapsula.com/api/prov/v1'',
      PostFormWithHeaders = (\<lambda>target values operation. Inl ''connection refused'')\<rparr>"

definition json_reject :: json where
  "json_reject =
     \<lparr>Unmarshal_SubAccountAddResponse = (\<lambda>body. Inl ''unexpected end of JSON input''),
      Unmarshal_SubAccountListResponse = (\<lambda>body. Inl ''unexpected end of JSON input''),
      Unmarshal_SubAccountDeleteResponse = (\<lambda>body. Inl ''unexpected end of JSON input'')\<rparr>"

text \<open>
  Sub-accounts and pages for the scan: an entry with ID 1, the wanted entry with ID 7,
  a full page without the wanted entry, a page of three entries, and a full page that
  holds the wanted entry at index 10.
\<close>

definition subAccount_other :: SubAccount where
  "subAccount_other = \<lparr>SubAccountID = 1, SubAccountPayload = None\<rparr>"

definition subAccount_wanted :: SubAccount where
  "subAccount_wanted =
     \<lparr>SubAccountID = 7,
      SubAccountPayload = Some \<lparr>SubAccountName = ''x'', RefID = '''', LogLevel = '''',
                                ParentID = 0, LogsAccountID = 0\<rparr>\<rparr>"

definition page_full :: "SubAccount list" where
  "page_full = replicate 50 subAccount_other"

definition page_short :: "SubAccount list" where
  "page_short = replicate 3 subAccount_other"

definition page_hit :: "SubAccount list" where
  "page_hit = replicate 10 subAccount_other @ subAccount_wanted # replicate 39 subAccount_other"

text \<open>
  A decoder that reads the body \<^verbatim>\<open>full\<close> as the full page, \<^verbatim>\<open>short\<close> as the page of
  three, \<^verbatim>\<open>hit\<close> as the page with the wanted entry, and rejects any other body.
\<close>

definition json_pages :: json where
  "json_pages =
     \<lparr>Unmarshal_SubAccountAddResponse = (\<lambda>body. Inl ''unexpected end of JSON input''),
      Unmarshal_SubAccountListResponse =
        (\<lambda>body. if body = ''full'' then Inr \<lparr>SubAccounts = page_full, Res = 0\<rparr>
                else if body = ''short'' then Inr \<lparr>SubAccounts = page_short, Res = 0\<rparr>
                else if body = ''hit'' then Inr \<lparr>SubAccounts = page_hit, Res = 0\<rparr>
                else Inl ''unexpected end of JSON input''),
      Unmarshal_SubAccountDeleteResponse = (\<lambda>body. Inl ''unexpected end of JSON input'')\<rparr>"

text \<open>A server with two full pages and then a page of three.\<close>

definition client_three_pages :: Client where
  "client_three_pages =
     \<lparr>BaseURL = ''https://my.incapsula.com/api/prov/v1'',
      PostFormWithHeaders =
        (\<lambda>target values operation.
           if values ''page_num'' = Some [''0''] \<or> values ''page_num'' = Some [''1'']
           then Inr \<lparr>Body = ''full'', ReadErr = None\<rparr>
           else Inr \<lparr>Body = ''short'', ReadErr = None\<rparr>)\<rparr>"

text \<open>A server whose every page is full and holds the wanted entry at index 10.\<close>

definition client_hit :: Client where
  "client_hit =
     \<lparr>BaseURL = ''https://my.incapsula.com/api/prov/v1'',
      PostFormWithHeaders =
        (\<lambda>target values operation. Inr \<lparr>Body = ''hit'', ReadErr = None\<rparr>)\<rparr>"

text \<open>A server that answers page 0 with a full page, and then drops the connection.\<close>

definition client_breaks :: Client where
  "client_breaks =
     \<lparr>BaseURL = ''https://my.incapsula.com/api/prov/v1'',
      PostFormWithHeaders =
        (\<lambda>target values operation.
           if values ''page_num'' = Some [''0'']
           then Inr \<lparr>Body = ''full'', ReadErr = None\<rparr>
           else Inl ''connection reset by peer'')\<rparr>"




text \<open>
  Response bodies of the service, and a decoder that reads exactly these four bodies (as
  \<^verbatim>\<open>json.Unmarshal\<close> does) and rejects any other body.
\<close>

definition body_added :: string where
  \<open>body_added = ''{"res":0,"sub_account":{"sub_account_id":7,"sub_account_name":"x"}}''\<close>

definition body_add_refused :: string where
  \<open>body_add_refused = ''{"res":1,"res_message":"Unexpected error"}''\<close>

definition body_deleted :: string where
  \<open>body_deleted = ''{"res":0,"res_message":"OK"}''\<close>

definition body_delete_refused :: string where
  \<open>body_delete_refused = ''{"res":1,"res_message":"Sub account not found"}''\<close>

definition json_service :: json where
  "json_service =
     \<lparr>Unmarshal_SubAccountAddResponse =
        (\<lambda>body. if body = body_added then Inr \<lparr>SubAccount = subAccount_wanted, Res = 0\<rparr>
                else if body = body_add_refused
                then Inr \<lparr>SubAccount = \<lparr>SubAccountID = 0, SubAccountPayload = None\<rparr>, Res = 1\<rparr>
                else Inl ''unexpected end of JSON input''),
      Unmarshal_SubAccountListResponse = (\<lambda>body. Inl ''unexpected end of JSON input''),
      Unmarshal_SubAccountDeleteResponse =
        (\<lambda>body. if body = body_deleted then Inr \<lparr>Res = 0, ResMessage = ''OK''\<rparr>
                else if body = body_delete_refused
                then Inr \<lparr>Res = 1, ResMessage = ''Sub account not found''\<rparr>
                else Inl ''unexpected end of JSON input'')\<rparr>"

text \<open>A server that accepts every add and delete, and one that refuses them.\<close>

definition client_accepts :: Client where
  "client_accepts =
     \<lparr>BaseURL = ''https://my.incapsula.com/api/prov/v1'',
      PostFormWithHeaders =
        (\<lambda>target values operation.
           if operation = CreateSubAccount then Inr \<lparr>Body = body_added, ReadErr = None\<rparr>
           else Inr \<lparr>Body = body_deleted, ReadErr = None\<rparr>)\<rparr>"

definition client_refuses :: Client where
  "client_refuses =
     \<lparr>BaseURL = ''https://my.incapsula.com/api/prov/v1'',
      PostFormWithHeaders =
        (\<lambda>target values operation.
           if operation = CreateSubAccount then Inr \<lparr>Body = body_add_refused, ReadErr = None\<rparr>
           else Inr \<lparr>Body = body_delete_refused, ReadErr = None\<rparr>)\<rparr>"

text \<open>
  A server whose every response breaks off after the first byte: the body read is
  \<^verbatim>\<open>{\<close>, and the reading ends with an error.
\<close>

definition client_cut :: Client where
  "client_cut =
     \<lparr>BaseURL = ''https://my.incapsula.com/api/prov/v1'',
      PostFormWithHeaders =
        (\<lambda>target values operation. Inr \<lparr>Body = ''{'', ReadErr = Some ''unexpected EOF''\<rparr>)\<rparr>"

text \<open>
  A server that accepts every add and delete, where the reading of the body fails after
  the whole JSON text has arrived.
\<close>

definition client_late_failure :: Client where
  "client_late_failure =
     \<lparr>BaseURL = ''https://my.incapsula.com/api/prov/v1'',
      PostFormWithHeaders =
        (\<lambda>target values operation.
           if operation = CreateSubAccount
           then Inr \<lparr>Body = body_added, ReadErr = Some ''connection reset by peer''\<rparr>
           else Inr \<lparr>Body = body_deleted, ReadErr = Some ''connection reset by peer''\<rparr>)\<rparr>"


subsection \<open>Notions used in the statements\<close>



text \<open>
  The client whose transport answers as that of \<open>c\<close> does, with the same bytes in every
  body, and where no reading of a body fails.
\<close>

definition without_read_errors :: "Client \<Rightarrow> Client" where
  "without_read_errors c =
     c\<lparr>PostFormWithHeaders :=
         (\<lambda>target values operation.
            case PostFormWithHeaders c target values operation of
              Inl err \<Rightarrow> Inl err
            | Inr resp \<Rightarrow> Inr (resp\<lparr>ReadErr := None\<rparr>))\<rparr>"

section \<open>The form bodies\<close>

lemma AddSubAccount_posts:
  "snd (AddSubAccount j c p posted) =
     posted @ [\<lparr>url = BaseURL c @ ''/'' @ endpointSubAccountAdd,
                data = AddSubAccount_values p, operation = CreateSubAccount\<rparr>]"
  by (simp add: AddSubAccount_def Let_def split: sum.split)

lemma AddSubAccount_values_fields:
  "AddSubAccount_values p ''sub_account_name'' = Some [SubAccountName p]"
  "AddSubAccount_values p ''ref_id'' = (if RefID p \<noteq> '''' then Some [RefID p] else None)"
  "AddSubAccount_values p ''parent_id'' =
     (if ParentID p \<noteq> 0 then Some [Itoa (ParentID p)] else None)"
  "AddSubAccount_values p ''logs_account_id'' =
     (if LogsAccountID p \<noteq> 0 then Some [Itoa (LogsAccountID p)] else None)"
  "AddSubAccount_values p ''log_level'' =
     (if LogLevel p \<noteq> '''' then Some [LogLevel p] else None)"
  by (simp_all add: AddSubAccount_values_def Let_def)

lemma AddSubAccount_values_dom:
  "dom (AddSubAccount_values p) =
     {''sub_account_name''} \<union> (if RefID p \<noteq> '''' then {''ref_id''} else {})
       \<union> (if ParentID p \<noteq> 0 then {''parent_id''} else {})
       \<union> (if LogsAccountID p \<noteq> 0 then {''logs_account_id''} else {})
       \<union> (if LogLevel p \<noteq> '''' then {''log_level''} else {})"
  by (auto simp add: AddSubAccount_values_def Let_def)

text \<open>
  Claim C4. \<^verbatim>\<open>AddSubAccount\<close> posts one request, to the add endpoint, whose form body
  holds \<^verbatim>\<open>sub_account_name\<close> with the payload's name, and holds each of
  \<^verbatim>\<open>ref_id\<close>, \<^verbatim>\<open>parent_id\<close>, \<^verbatim>\<open>logs_account_id\<close> and \<^verbatim>\<open>log_level\<close> exactly when
  the payload's field is a non-empty string or a nonzero integer, with the payload's
  value (an integer in decimal); the body has no other field. So a payload with only
  the name set gives a body of one field, and a payload with every optional field set
  gives all five.
\<close>

theorem AddSubAccount_form_body:
  "snd (AddSubAccount j c p posted) =
     posted @ [\<lparr>url = BaseURL c @ ''/'' @ endpointSubAccountAdd,
                data = AddSubAccount_values p, operation = CreateSubAccount\<rparr>]
   \<and> AddSubAccount_values p ''sub_account_name'' = Some [SubAccountName p]
   \<and> AddSubAccount_values p ''ref_id'' = (if RefID p \<noteq> '''' then Some [RefID p] else None)
   \<and> AddSubAccount_values p ''parent_id'' =
       (if ParentID p \<noteq> 0 then Some [Itoa (ParentID p)] else None)
   \<and> AddSubAccount_values p ''logs_account_id'' =
       (if LogsAccountID p \<noteq> 0 then Some [Itoa (LogsAccountID p)] else None)
   \<and> AddSubAccount_values p ''log_level'' =
       (if LogLevel p \<noteq> '''' then Some [LogLevel p] else None)
   \<and> dom (AddSubAccount_values p) =
       {''sub_account_name''} \<union> (if RefID p \<noteq> '''' then {''ref_id''} else {})
         \<union> (if ParentID p \<noteq> 0 then {''parent_id''} else {})
         \<union> (if LogsAccountID p \<noteq> 0 then {''logs_account_id''} else {})
         \<union> (if LogLevel p \<noteq> '''' then {''log_level''} else {})"
  by (simp only: AddSubAccount_posts AddSubAccount_values_fields AddSubAccount_values_dom
      simp_thms)

text \<open>The two payloads of the claim: only the name set, and everything set.\<close>

theorem AddSubAccount_form_body_witness:
  "dom (AddSubAccount_values payload_name_only) = {''sub_account_name''}
   \<and> dom (AddSubAccount_values payload_all_set) =
       {''sub_account_name'', ''ref_id'', ''parent_id'', ''logs_account_id'', ''log_level''}
   \<and> AddSubAccount_values payload_all_set ''sub_account_name'' = Some [''x'']
   \<and> AddSubAccount_values payload_all_set ''ref_id'' = Some [''r7'']
   \<and> AddSubAccount_values payload_all_set ''parent_id'' = Some [''12'']
   \<and> AddSubAccount_values payload_all_set ''logs_account_id'' = Some [''34'']
   \<and> AddSubAccount_values payload_all_set ''log_level'' = Some [''full'']"
  using AddSubAccount_form_body [of json_reject client_down payload_name_only "[]"]
    AddSubAccount_form_body [of json_reject client_down payload_all_set "[]"]
  by (simp add: payload_name_only_def payload_all_set_def Itoa_def digits.simps insert_commute)

lemma sendListSubAccountsRequest_values_fields:
  "sendListSubAccountsRequest_values a n ''page_num'' = Some [Itoa n]"
  "sendListSubAccountsRequest_values a n ''page_size'' = Some [''50'']"
  "sendListSubAccountsRequest_values a n ''account_id'' =
     (if a \<noteq> 0 then Some [Itoa a] else None)"
  by (simp_all add: sendListSubAccountsRequest_values_def Let_def PAGE_SIZE_def Itoa_def
      digits.simps)

lemma sendListSubAccountsRequest_values_dom:
  "dom (sendListSubAccountsRequest_values a n) =
     {''page_num'', ''page_size''} \<union> (if a \<noteq> 0 then {''account_id''} else {})"
  by (auto simp add: sendListSubAccountsRequest_values_def Let_def)

lemma sendListSubAccountsRequest_posts:
  "snd (sendListSubAccountsRequest j c a n posted) =
     posted @ [\<lparr>url = BaseURL c @ ''/'' @ endpointSubAccountList,
                data = sendListSubAccountsRequest_values a n, operation = ReadSubAccount\<rparr>]"
  by (simp add: sendListSubAccountsRequest_def Let_def split: sum.split)

text \<open>
  Claim C7. The page fetch posts one request, to the list endpoint, whose form body
  holds \<^verbatim>\<open>page_num\<close> with the page number in decimal and \<^verbatim>\<open>page_size\<close> with
  \<^verbatim>\<open>50\<close>, holds \<^verbatim>\<open>account_id\<close> with the parent account ID exactly when that ID is
  not zero, and holds no other field.
\<close>

theorem sendListSubAccountsRequest_form_body:
  "snd (sendListSubAccountsRequest j c accountId pageNum posted) =
     posted @ [\<lparr>url = BaseURL c @ ''/'' @ endpointSubAccountList,
                data = sendListSubAccountsRequest_values accountId pageNum,
                operation = ReadSubAccount\<rparr>]
   \<and> sendListSubAccountsRequest_values accountId pageNum ''page_num'' = Some [Itoa pageNum]
   \<and> sendListSubAccountsRequest_values accountId pageNum ''page_size'' = Some [''50'']
   \<and> sendListSubAccountsRequest_values accountId pageNum ''account_id'' =
       (if accountId \<noteq> 0 then Some [Itoa accountId] else None)
   \<and> dom (sendListSubAccountsRequest_values accountId pageNum) =
       {''page_num'', ''page_size''} \<union> (if accountId \<noteq> 0 then {''account_id''} else {})"
  by (simp only: sendListSubAccountsRequest_posts sendListSubAccountsRequest_values_fields
      sendListSubAccountsRequest_values_dom simp_thms)

theorem sendListSubAccountsRequest_form_body_witness:
  "sendListSubAccountsRequest_values 0 2 ''page_num'' = Some [''2'']
   \<and> dom (sendListSubAccountsRequest_values 0 2) = {''page_num'', ''page_size''}
   \<and> sendListSubAccountsRequest_values 77 2 ''account_id'' = Some [''77'']
   \<and> dom (sendListSubAccountsRequest_values 77 2) = {''page_num'', ''page_size'', ''account_id''}"
  using sendListSubAccountsRequest_form_body [of json_reject client_down 0 2 "[]"]
    sendListSubAccountsRequest_form_body [of json_reject client_down 77 2 "[]"]
  by (simp add: Itoa_def digits.simps insert_commute)

section \<open>The pagination loop\<close>

lemma sendListSubAccountsRequest_result:
  "sendListSubAccountsRequest j c a n posted = (page_result j c a n, posted @ [list_request c a n])"
  by (simp add: sendListSubAccountsRequest_def page_result_def list_request_def Let_def
      split: sum.split)

lemma pages_requested_Suc_left:
  "pages_requested c a count (Suc n) = list_request c a count # pages_requested c a (count + 1) n"
proof -
  have "[0..<Suc n] = 0 # map Suc [0..<n]"
    by (simp add: upt_conv_Cons map_Suc_upt del: upt_Suc)
  then show ?thesis
    by (simp add: pages_requested_def comp_def add.assoc del: upt_Suc)
qed

lemma loop_on_full_page:
  assumes "full_page_without j c a t count"
  shows "GetSubAccount_loop j c a t True count posted =
         GetSubAccount_loop j c a t True (count + 1) (posted @ [list_request c a count])"
  using assms
  by (subst GetSubAccount_loop.simps)
     (simp add: sendListSubAccountsRequest_result full_page_without_def split: sum.splits)

lemma loop_skips_full_pages:
  assumes "\<forall>k<n. full_page_without j c a t (count + of_nat k)"
  shows "GetSubAccount_loop j c a t True count posted =
         GetSubAccount_loop j c a t True (count + of_nat n) (posted @ pages_requested c a count n)"
  using assms
proof (induction n arbitrary: count posted)
  case 0
  then show ?case by (simp add: pages_requested_def)
next
  case (Suc n)
  have "full_page_without j c a t (count + of_nat 0)"
    using Suc.prems by blast
  then have first: "full_page_without j c a t count"
    by simp
  have rest: "\<forall>k<n. full_page_without j c a t (count + 1 + of_nat k)"
  proof (intro allI impI)
    fix k assume "k < n"
    then have "Suc k < Suc n" by simp
    with Suc.prems have "full_page_without j c a t (count + of_nat (Suc k))"
      by blast
    then show "full_page_without j c a t (count + 1 + of_nat k)"
      by (simp add: add.assoc)
  qed
  have "GetSubAccount_loop j c a t True count posted =
        GetSubAccount_loop j c a t True (count + 1) (posted @ [list_request c a count])"
    by (rule loop_on_full_page [OF first])
  also have "\<dots> = GetSubAccount_loop j c a t True (count + 1 + of_nat n)
                    ((posted @ [list_request c a count]) @ pages_requested c a (count + 1) n)"
    by (rule Suc.IH [OF rest])
  also have "count + 1 + of_nat n = count + of_nat (Suc n)"
    by simp
  finally show ?case
    by (simp add: pages_requested_Suc_left)
qed

lemma pages_requested_Suc_right:
  "pages_requested c a count (Suc n) =
     pages_requested c a count n @ [list_request c a (count + of_nat n)]"
  by (simp add: pages_requested_def)

lemma loop_on_error:
  assumes "page_result j c a count = Inl err"
  shows "GetSubAccount_loop j c a t True count posted =
         Some (Inl err, posted @ [list_request c a count])"
  using assms
  by (subst GetSubAccount_loop.simps) (simp add: sendListSubAccountsRequest_result)

lemma loop_on_match:
  assumes "page_result j c a count = Inr subAccounts"
    and "find (\<lambda>subAccount. SubAccountID subAccount = t) subAccounts = Some s"
  shows "GetSubAccount_loop j c a t True count posted =
         Some (Inr (Some s), posted @ [list_request c a count])"
  using assms
  by (subst GetSubAccount_loop.simps) (simp add: sendListSubAccountsRequest_result)

lemma loop_on_last_page:
  assumes "page_result j c a count = Inr subAccounts"
    and "find (\<lambda>subAccount. SubAccountID subAccount = t) subAccounts = None"
    and "length subAccounts \<noteq> PAGE_SIZE"
  shows "GetSubAccount_loop j c a t True count posted =
         Some (Inr None, posted @ [list_request c a count])"
  using assms
  by (subst GetSubAccount_loop.simps, subst GetSubAccount_loop.simps)
     (simp add: sendListSubAccountsRequest_result)

lemma GetSubAccount_skips_full_pages:
  assumes "\<forall>k<n. full_page_without j c a t (of_nat k)"
  shows "GetSubAccount j c a t posted =
         GetSubAccount_loop j c a t True (of_nat n) (posted @ pages_requested c a 0 n)"
  using loop_skips_full_pages [of n j c a t 0 posted] assms
  by (simp add: GetSubAccount_def)

lemma page_result_Inl:
  "page_result j c a n = Inl err \<longleftrightarrow>
     (\<exists>e. PostFormWithHeaders c (BaseURL c @ ''/'' @ endpointSubAccountList)
             (sendListSubAccountsRequest_values a n) ReadSubAccount = Inl e
          \<and> err = ''Error getting subaccounts for account '' @ Itoa a @ '': '' @ e)
     \<or> (\<exists>resp e. PostFormWithHeaders c (BaseURL c @ ''/'' @ endpointSubAccountList)
             (sendListSubAccountsRequest_values a n) ReadSubAccount = Inr resp
          \<and> Unmarshal_SubAccountListResponse j (Body resp) = Inl e
          \<and> err = ''Error parsing subaccounts list JSON response for accountid: ''
                    @ Itoa a @ '' '' @ e @ [CHR 0x0A] @ ''response: '' @ Body resp)"
  by (auto simp add: page_result_def sendListSubAccountsRequest_def Let_def split: sum.splits)

lemma Itoa_small: "Itoa 0 = ''0''" "Itoa 1 = ''1''" "Itoa 2 = ''2''"
  by (simp_all add: Itoa_def digits.simps)

lemma page_num_of_list_request:
  "data (list_request c a n) ''page_num'' = Some [Itoa n]"
  by (simp add: list_request_def sendListSubAccountsRequest_values_fields)

lemma find_replicate_other:
  "find (\<lambda>subAccount. SubAccountID subAccount = 7) (replicate n subAccount_other) = None"
  by (simp add: find_None_iff subAccount_other_def)

text \<open>
  Claim C1. Let pages 0 to \<open>n - 1\<close> be fetched, full (exactly 50 entries) and without
  the wanted ID, and let page \<open>n\<close> be fetched, without the wanted ID, and not of
  exactly 50 entries (fewer than 50, an empty page included). Then
  \<^verbatim>\<open>GetSubAccount\<close> returns: it posts the requests of pages 0 to \<open>n\<close> in this order
  and no other request, so a next page is asked for exactly after a page of 50 entries,
  and it returns a nil sub-account with a nil error.
\<close>

theorem GetSubAccount_not_found:
  assumes "\<forall>k<n. full_page_without j c parentAccountID subAccountID (of_nat k)"
    and "page_result j c parentAccountID (of_nat n) = Inr lastPage"
    and "find (\<lambda>subAccount. SubAccountID subAccount = subAccountID) lastPage = None"
    and "length lastPage \<noteq> PAGE_SIZE"
  shows "GetSubAccount j c parentAccountID subAccountID posted =
         Some (Inr None, posted @ pages_requested c parentAccountID 0 (Suc n))"
  by (simp only: GetSubAccount_skips_full_pages [OF assms(1)]
      loop_on_last_page [OF assms(2,3,4)] pages_requested_Suc_right append_assoc add_0_left)

lemma three_pages_results:
  "page_result json_pages client_three_pages 0 0 = Inr page_full"
  "page_result json_pages client_three_pages 0 1 = Inr page_full"
  "page_result json_pages client_three_pages 0 2 = Inr page_short"
  by (simp_all add: page_result_def sendListSubAccountsRequest_def Let_def json_pages_def
      client_three_pages_def sendListSubAccountsRequest_values_fields Itoa_small)

text \<open>
  The instance of the claim: two pages of 50 entries, then a page of 3, none with the
  wanted ID 7. Three requests are posted, with \<^verbatim>\<open>page_num\<close> 0, 1 and 2.
\<close>

theorem GetSubAccount_not_found_witness:
  "GetSubAccount json_pages client_three_pages 0 7 [] =
     Some (Inr None, [list_request client_three_pages 0 0, list_request client_three_pages 0 1,
                      list_request client_three_pages 0 2])
   \<and> map (\<lambda>r. data r ''page_num'')
        [list_request client_three_pages 0 0, list_request client_three_pages 0 1,
         list_request client_three_pages 0 2] = [Some [''0''], Some [''1''], Some [''2'']]"
proof -
  have full: "\<forall>k<2. full_page_without json_pages client_three_pages 0 7 (of_nat k)"
  proof (intro allI impI)
    fix k :: nat assume "k < 2"
    then have "k = 0 \<or> k = 1" by auto
    then show "full_page_without json_pages client_three_pages 0 7 (of_nat k)"
      by (auto simp add: full_page_without_def three_pages_results page_full_def
          find_replicate_other PAGE_SIZE_def)
  qed
  have last: "page_result json_pages client_three_pages 0 (of_nat 2) = Inr page_short"
    by (simp add: three_pages_results)
  have none: "find (\<lambda>subAccount. SubAccountID subAccount = 7) page_short = None"
    by (simp add: page_short_def find_replicate_other)
  have short: "length page_short \<noteq> PAGE_SIZE"
    by (simp add: page_short_def PAGE_SIZE_def)
  have "pages_requested client_three_pages 0 0 (Suc 2) =
          [list_request client_three_pages 0 0, list_request client_three_pages 0 1,
           list_request client_three_pages 0 2]"
    by (simp add: pages_requested_def upt_rec numeral_2_eq_2 numeral_3_eq_3)
  with GetSubAccount_not_found [OF full last none short, of "[]"]
  show ?thesis
    by (simp add: page_num_of_list_request Itoa_small)
qed

text \<open>
  Claim C2. Let pages 0 to \<open>n - 1\<close> be fetched, full and without the wanted ID, and let
  the entry at index \<open>i\<close> of page \<open>n\<close> be the first of that page with the wanted ID.
  Then \<^verbatim>\<open>GetSubAccount\<close> returns that entry with a nil error, and the requests it has
  posted are those of pages 0 to \<open>n\<close>: no page is fetched after the match.
\<close>

theorem GetSubAccount_found:
  assumes "\<forall>k<n. full_page_without j c parentAccountID subAccountID (of_nat k)"
    and "page_result j c parentAccountID (of_nat n) = Inr page"
    and "i < length page"
    and "SubAccountID (page ! i) = subAccountID"
    and "\<forall>i'<i. SubAccountID (page ! i') \<noteq> subAccountID"
  shows "GetSubAccount j c parentAccountID subAccountID posted =
         Some (Inr (Some (page ! i)), posted @ pages_requested c parentAccountID 0 (Suc n))"
proof -
  have "find (\<lambda>subAccount. SubAccountID subAccount = subAccountID) page = Some (page ! i)"
    using assms(3,4,5) by (auto simp add: find_Some_iff)
  then show ?thesis
    by (simp only: GetSubAccount_skips_full_pages [OF assms(1)]
        loop_on_match [OF assms(2)] pages_requested_Suc_right append_assoc add_0_left)
qed

lemma hit_page_result:
  "page_result json_pages client_hit 0 0 = Inr page_hit"
  by (simp add: page_result_def sendListSubAccountsRequest_def Let_def json_pages_def
      client_hit_def)

lemma page_hit_nth:
  "i < 10 \<Longrightarrow> page_hit ! i = subAccount_other" "page_hit ! 10 = subAccount_wanted"
  by (simp_all add: page_hit_def nth_append)

text \<open>
  The instance of the claim: page 0 has 50 entries and the entry at index 10 has the
  wanted ID 7. One request is posted and that entry is returned.
\<close>

theorem GetSubAccount_found_witness:
  "length page_hit = 50 \<and> page_hit ! 10 = subAccount_wanted
   \<and> GetSubAccount json_pages client_hit 0 7 [] =
       Some (Inr (Some subAccount_wanted), [list_request client_hit 0 0])"
proof -
  have full: "\<forall>k<0. full_page_without json_pages client_hit 0 7 (of_nat k)"
    by simp
  have page: "page_result json_pages client_hit 0 (of_nat 0) = Inr page_hit"
    by (simp add: hit_page_result)
  have len: "10 < length page_hit"
    by (simp add: page_hit_def)
  have hit: "SubAccountID (page_hit ! 10) = 7"
    by (simp add: page_hit_nth subAccount_wanted_def)
  have first: "\<forall>i'<10. SubAccountID (page_hit ! i') \<noteq> 7"
    by (simp add: page_hit_nth subAccount_other_def)
  have "pages_requested client_hit 0 0 (Suc 0) = [list_request client_hit 0 0]"
    by (simp add: pages_requested_def)
  moreover have "length page_hit = 50"
    by (simp add: page_hit_def)
  ultimately show ?thesis
    using GetSubAccount_found [OF full page len hit first, of "[]"]
    by (simp add: page_hit_nth)
qed

text \<open>
  Claim C3. Let pages 0 to \<open>n - 1\<close> be fetched, full and without the wanted ID, and let
  the fetch of page \<open>n\<close> fail with an error (\<open>page_result_Inl\<close> above: the transport
  failed or the body did not decode). Then \<^verbatim>\<open>GetSubAccount\<close> returns a nil
  sub-account with exactly that error, and the requests it has posted are those of
  pages 0 to \<open>n\<close>: no page is fetched after the failure, and no entry of the pages
  before is returned.
\<close>

theorem GetSubAccount_fetch_error:
  assumes "\<forall>k<n. full_page_without j c parentAccountID subAccountID (of_nat k)"
    and "page_result j c parentAccountID (of_nat n) = Inl err"
  shows "GetSubAccount j c parentAccountID subAccountID posted =
         Some (Inl err, posted @ pages_requested c parentAccountID 0 (Suc n))"
  by (simp only: GetSubAccount_skips_full_pages [OF assms(1)]
      loop_on_error [OF assms(2)] pages_requested_Suc_right append_assoc add_0_left)

lemma breaks_page_results:
  "page_result json_pages client_breaks 0 0 = Inr page_full"
  "page_result json_pages client_breaks 0 1 =
     Inl ''Error getting subaccounts for account 0: connection reset by peer''"
  by (simp_all add: page_result_def sendListSubAccountsRequest_def Let_def json_pages_def
      client_breaks_def sendListSubAccountsRequest_values_fields Itoa_small)

text \<open>
  The instance of the claim: page 0 is full, the transport fails on page 1. The error
  of that fetch is returned and page 2 is not asked for.
\<close>

theorem GetSubAccount_fetch_error_witness:
  "GetSubAccount json_pages client_breaks 0 7 [] =
     Some (Inl ''Error getting subaccounts for account 0: connection reset by peer'',
           [list_request client_breaks 0 0, list_request client_breaks 0 1])"
proof -
  have full: "\<forall>k<1. full_page_without json_pages client_breaks 0 7 (of_nat k)"
    by (simp add: full_page_without_def breaks_page_results page_full_def
        find_replicate_other PAGE_SIZE_def)
  have err: "page_result json_pages client_breaks 0 (of_nat 1) =
               Inl ''Error getting subaccounts for account 0: connection reset by peer''"
    by (simp add: breaks_page_results)
  have "pages_requested client_breaks 0 0 (Suc 1) =
          [list_request client_breaks 0 0, list_request client_breaks 0 1]"
    by (simp add: pages_requested_def upt_rec numeral_2_eq_2)
  with GetSubAccount_fetch_error [OF full err, of "[]"]
  show ?thesis by simp
qed

section \<open>Termination of the scan\<close>











section \<open>Result codes and decode failures\<close>

lemma AddSubAccount_on_response:
  assumes "PostFormWithHeaders c (BaseURL c @ ''/'' @ endpointSubAccountAdd)
             (AddSubAccount_values p) CreateSubAccount = Inr resp"
  shows "fst (AddSubAccount j c p posted) =
           (case Unmarshal_SubAccountAddResponse j (Body resp) of
              Inl err \<Rightarrow>
                Inl (''Error parsing add subaccount JSON response for subaccount ''
                       @ SubAccountName p @ '': '' @ err)
            | Inr r \<Rightarrow>
                if SubAccountAddResponse.Res r \<noteq> 0
                then Inl (''Error from Incapsula service when adding subaccount ''
                            @ SubAccountName p @ '': '' @ Body resp)
                else Inr r)"
  using assms by (simp add: AddSubAccount_def Let_def split: sum.split)

lemma sendListSubAccountsRequest_on_response:
  assumes "PostFormWithHeaders c (BaseURL c @ ''/'' @ endpointSubAccountList)
             (sendListSubAccountsRequest_values a n) ReadSubAccount = Inr resp"
  shows "fst (sendListSubAccountsRequest j c a n posted) =
           (case Unmarshal_SubAccountListResponse j (Body resp) of
              Inl err \<Rightarrow>
                Inl (''Error parsing subaccounts list JSON response for accountid: ''
                       @ Itoa a @ '' '' @ err @ [CHR 0x0A] @ ''response: '' @ Body resp)
            | Inr r \<Rightarrow> Inr (SubAccounts r))"
  using assms by (simp add: sendListSubAccountsRequest_def Let_def split: sum.split)

lemma DeleteSubAccount_on_response:
  assumes "PostFormWithHeaders c (BaseURL c @ ''/'' @ endpointSubAccountDelete)
             [''sub_account_id'' \<mapsto> [Itoa i]] DeleteSubAccountOperation = Inr resp"
  shows "fst (DeleteSubAccount j c i posted) =
           (case Unmarshal_SubAccountDeleteResponse j (Body resp) of
              Inl err \<Rightarrow>
                Some (''Error parsing delete account JSON response for subaccount id: ''
                        @ Itoa i @ '': '' @ err)
            | Inr r \<Rightarrow>
                if SubAccountDeleteResponse.Res r \<noteq> 0
                then Some (''Error from Incapsula service when deleting subaccount id: ''
                             @ Itoa i @ '': '' @ Body resp)
                else None)"
  using assms by (simp add: DeleteSubAccount_def Let_def split: sum.split)

lemma sublist_at_end: "sublist ys (xs @ ys)"
  using sublist_appendI [of ys xs "[]"] by simp




lemma Itoa_7: "Itoa 7 = ''7''"
  by (simp add: Itoa_def digits.simps)

text \<open>
  Claim C5. When the POST succeeds and the body decodes, \<^verbatim>\<open>AddSubAccount\<close> and
  \<^verbatim>\<open>DeleteSubAccount\<close> return an error if and only if the decoded \<^verbatim>\<open>res\<close> is not
  zero, and the text of that error contains the raw response body. When \<^verbatim>\<open>res\<close> is
  zero, \<^verbatim>\<open>AddSubAccount\<close> returns the decoded response, which carries the sub-account
  with the ID the provider gave it, and \<^verbatim>\<open>DeleteSubAccount\<close> returns nil, whatever
  the decoded \<^verbatim>\<open>res_message\<close> is.
\<close>

theorem result_code_decides:
  "(PostFormWithHeaders c (BaseURL c @ ''/'' @ endpointSubAccountAdd)
        (AddSubAccount_values p) CreateSubAccount = Inr resp
      \<and> Unmarshal_SubAccountAddResponse j (Body resp) = Inr r \<longrightarrow>
        (isl (fst (AddSubAccount j c p posted)) \<longleftrightarrow> SubAccountAddResponse.Res r \<noteq> 0)
        \<and> fst (AddSubAccount j c p posted) =
            (if SubAccountAddResponse.Res r = 0 then Inr r
             else Inl (''Error from Incapsula service when adding subaccount ''
                         @ SubAccountName p @ '': '' @ Body resp))
        \<and> sublist (Body resp)
             (''Error from Incapsula service when adding subaccount ''
                @ SubAccountName p @ '': '' @ Body resp))
   \<and> (PostFormWithHeaders c (BaseURL c @ ''/'' @ endpointSubAccountDelete)
        [''sub_account_id'' \<mapsto> [Itoa subAccountID]] DeleteSubAccountOperation = Inr resp'
      \<and> Unmarshal_SubAccountDeleteResponse j (Body resp') = Inr r' \<longrightarrow>
        (fst (DeleteSubAccount j c subAccountID posted) \<noteq> None
           \<longleftrightarrow> SubAccountDeleteResponse.Res r' \<noteq> 0)
        \<and> fst (DeleteSubAccount j c subAccountID posted) =
            (if SubAccountDeleteResponse.Res r' = 0 then None
             else Some (''Error from Incapsula service when deleting subaccount id: ''
                          @ Itoa subAccountID @ '': '' @ Body resp'))
        \<and> sublist (Body resp')
             (''Error from Incapsula service when deleting subaccount id: ''
                @ Itoa subAccountID @ '': '' @ Body resp'))"
proof (intro conjI impI)
  assume a: "PostFormWithHeaders c (BaseURL c @ ''/'' @ endpointSubAccountAdd)
        (AddSubAccount_values p) CreateSubAccount = Inr resp
      \<and> Unmarshal_SubAccountAddResponse j (Body resp) = Inr r"
  then have res: "fst (AddSubAccount j c p posted) =
            (if SubAccountAddResponse.Res r = 0 then Inr r
             else Inl (''Error from Incapsula service when adding subaccount ''
                         @ SubAccountName p @ '': '' @ Body resp))"
    by (simp add: AddSubAccount_on_response)
  then show "isl (fst (AddSubAccount j c p posted)) \<longleftrightarrow> SubAccountAddResponse.Res r \<noteq> 0"
    by simp
  from res show "fst (AddSubAccount j c p posted) =
            (if SubAccountAddResponse.Res r = 0 then Inr r
             else Inl (''Error from Incapsula service when adding subaccount ''
                         @ SubAccountName p @ '': '' @ Body resp))" .
next
  show "sublist (Body resp)
             (''Error from Incapsula service when adding subaccount ''
                @ SubAccountName p @ '': '' @ Body resp)"
    by (simp only: append_assoc [symmetric] sublist_at_end)
next
  assume a: "PostFormWithHeaders c (BaseURL c @ ''/'' @ endpointSubAccountDelete)
        [''sub_account_id'' \<mapsto> [Itoa subAccountID]] DeleteSubAccountOperation = Inr resp'
      \<and> Unmarshal_SubAccountDeleteResponse j (Body resp') = Inr r'"
  then have res: "fst (DeleteSubAccount j c subAccountID posted) =
            (if SubAccountDeleteResponse.Res r' = 0 then None
             else Some (''Error from Incapsula service when deleting subaccount id: ''
                          @ Itoa subAccountID @ '': '' @ Body resp'))"
    by (simp add: DeleteSubAccount_on_response)
  then show "fst (DeleteSubAccount j c subAccountID posted) \<noteq> None
           \<longleftrightarrow> SubAccountDeleteResponse.Res r' \<noteq> 0"
    by simp
  from res show "fst (DeleteSubAccount j c subAccountID posted) =
            (if SubAccountDeleteResponse.Res r' = 0 then None
             else Some (''Error from Incapsula service when deleting subaccount id: ''
                          @ Itoa subAccountID @ '': '' @ Body resp'))" .
next
  show "sublist (Body resp')
             (''Error from Incapsula service when deleting subaccount id: ''
                @ Itoa subAccountID @ '': '' @ Body resp')"
    by (simp only: append_assoc [symmetric] sublist_at_end)
qed

text \<open>
  A server that accepts (\<^verbatim>\<open>res\<close> 0) and a server that refuses (\<^verbatim>\<open>res\<close> 1), for add
  and for delete.
\<close>

theorem result_code_decides_witness:
  "fst (AddSubAccount json_service client_accepts payload_name_only []) =
     Inr \<lparr>SubAccount = subAccount_wanted, Res = 0\<rparr>
   \<and> SubAccountID subAccount_wanted = 7
   \<and> fst (AddSubAccount json_service client_refuses payload_name_only []) =
       Inl (''Error from Incapsula service when adding subaccount x: '' @ body_add_refused)
   \<and> fst (DeleteSubAccount json_service client_accepts 7 []) = None
   \<and> fst (DeleteSubAccount json_service client_refuses 7 []) =
       Some (''Error from Incapsula service when deleting subaccount id: 7: ''
               @ body_delete_refused)"
proof -
  have distinct: "body_added \<noteq> body_add_refused" "body_deleted \<noteq> body_delete_refused"
    by (simp_all add: body_added_def body_add_refused_def body_deleted_def
        body_delete_refused_def)
  have accepted:
    "fst (AddSubAccount json_service client_accepts payload_name_only []) =
       Inr \<lparr>SubAccount = subAccount_wanted, Res = 0\<rparr>"
    "fst (DeleteSubAccount json_service client_accepts 7 []) = None"
    using result_code_decides [where c = client_accepts and j = json_service
        and p = payload_name_only and posted = "[]" and subAccountID = 7
        and resp = "\<lparr>Body = body_added, ReadErr = None\<rparr>"
        and r = "\<lparr>SubAccount = subAccount_wanted, Res = 0\<rparr>"
        and resp' = "\<lparr>Body = body_deleted, ReadErr = None\<rparr>"
        and r' = "\<lparr>Res = 0, ResMessage = ''OK''\<rparr>"]
    by (simp_all add: client_accepts_def json_service_def)
  have refused:
    "fst (AddSubAccount json_service client_refuses payload_name_only []) =
       Inl (''Error from Incapsula service when adding subaccount x: '' @ body_add_refused)"
    "fst (DeleteSubAccount json_service client_refuses 7 []) =
       Some (''Error from Incapsula service when deleting subaccount id: 7: ''
               @ body_delete_refused)"
    using distinct result_code_decides [where c = client_refuses and j = json_service
        and p = payload_name_only and posted = "[]" and subAccountID = 7
        and resp = "\<lparr>Body = body_add_refused, ReadErr = None\<rparr>"
        and r = "\<lparr>SubAccount = \<lparr>SubAccountID = 0, SubAccountPayload = None\<rparr>, Res = 1\<rparr>"
        and resp' = "\<lparr>Body = body_delete_refused, ReadErr = None\<rparr>"
        and r' = "\<lparr>Res = 1, ResMessage = ''Sub account not found''\<rparr>"]
    by (simp_all add: client_refuses_def json_service_def payload_name_only_def Itoa_7)
  show ?thesis
    using accepted refused by (simp add: subAccount_wanted_def)
qed




section \<open>Errors of reading the response body\<close>

lemma BaseURL_without_read_errors [simp]:
  "BaseURL (without_read_errors c) = BaseURL c"
  by (simp add: without_read_errors_def)

lemma AddSubAccount_without_read_errors:
  "AddSubAccount j (without_read_errors c) p posted = AddSubAccount j c p posted"
  by (simp add: AddSubAccount_def without_read_errors_def Let_def split: sum.split)

lemma sendListSubAccountsRequest_without_read_errors:
  "sendListSubAccountsRequest j (without_read_errors c) a n posted =
     sendListSubAccountsRequest j c a n posted"
  by (simp add: sendListSubAccountsRequest_def without_read_errors_def Let_def
      split: sum.split)

lemma DeleteSubAccount_without_read_errors:
  "DeleteSubAccount j (without_read_errors c) i posted = DeleteSubAccount j c i posted"
  by (simp add: DeleteSubAccount_def without_read_errors_def Let_def split: sum.split)

text \<open>
  Two clients whose page fetches agree: what the loop returns for one, it returns for
  the other.
\<close>

lemma loop_transfer:
  assumes "GetSubAccount_loop j c a t shouldFetch count posted = Some r"
    and "\<And>a n posted. sendListSubAccountsRequest j c' a n posted =
            sendListSubAccountsRequest j c a n posted"
  shows "GetSubAccount_loop j c' a t shouldFetch count posted = Some r"
  using assms
proof (induction rule: GetSubAccount_loop.raw_induct [rotated 1, consumes 1])
  case (1 loop j c a t shouldFetch count posted r)
  note same = "1"(3)
  have step: "loop j c a' t' s' n' p' = Some r' \<Longrightarrow>
      GetSubAccount_loop j c' a' t' s' n' p' = Some r'" for a' t' s' n' p' r'
    using "1"(1) same by blast
  show ?case
  proof (cases shouldFetch)
    case False
    with "1"(2) show ?thesis
      by (subst GetSubAccount_loop.simps) simp
  next
    case True
    show ?thesis
    proof (cases "sendListSubAccountsRequest j c a count posted")
      case (Pair result posted')
      show ?thesis
      proof (cases result)
        case (Inl err)
        with True Pair "1"(2) show ?thesis
          by (subst GetSubAccount_loop.simps) (simp add: same)
      next
        case (Inr subAccounts)
        show ?thesis
        proof (cases "find (\<lambda>subAccount. SubAccountID subAccount = t) subAccounts")
          case None
          with True Pair Inr "1"(2)
          have "loop j c a t (length subAccounts = PAGE_SIZE) (count + 1) posted' = Some r"
            by simp
          then have "GetSubAccount_loop j c' a t (length subAccounts = PAGE_SIZE) (count + 1)
                       posted' = Some r"
            by (rule step)
          with True Pair Inr None show ?thesis
            by (subst GetSubAccount_loop.simps) (simp add: same)
        next
          case (Some s)
          with True Pair Inr "1"(2) show ?thesis
            by (subst GetSubAccount_loop.simps) (simp add: same)
        qed
      qed
    qed
  qed
qed

lemma loop_without_read_errors:
  "GetSubAccount_loop j (without_read_errors c) a t shouldFetch count posted =
     GetSubAccount_loop j c a t shouldFetch count posted"
proof (cases "GetSubAccount_loop j c a t shouldFetch count posted")
  case (Some r)
  then have "GetSubAccount_loop j (without_read_errors c) a t shouldFetch count posted = Some r"
    by (rule loop_transfer) (rule sendListSubAccountsRequest_without_read_errors)
  with Some show ?thesis by simp
next
  case None
  show ?thesis
  proof (cases "GetSubAccount_loop j (without_read_errors c) a t shouldFetch count posted")
    case None
    with \<open>GetSubAccount_loop j c a t shouldFetch count posted = None\<close> show ?thesis by simp
  next
    case (Some r)
    then have "GetSubAccount_loop j c a t shouldFetch count posted = Some r"
      by (rule loop_transfer)
         (rule sendListSubAccountsRequest_without_read_errors [symmetric])
    with None show ?thesis by simp
  qed
qed

text \<open>
  Claim C10. The error of reading the response body is discarded. Every operation
  returns the same result and posts the same requests as with a transport that delivers
  the same bytes without any read error; and when the POST succeeds, what the operation
  returns is decided by the decoder on the bytes that were read: a parse error when it
  rejects them, and the regular result (the service error or the decoded value) when it
  accepts them.
\<close>

theorem read_error_discarded:
  "AddSubAccount j (without_read_errors c) p posted = AddSubAccount j c p posted
   \<and> sendListSubAccountsRequest j (without_read_errors c) accountId pageNum posted =
       sendListSubAccountsRequest j c accountId pageNum posted
   \<and> GetSubAccount j (without_read_errors c) accountId subAccountID posted =
       GetSubAccount j c accountId subAccountID posted
   \<and> DeleteSubAccount j (without_read_errors c) subAccountID posted =
       DeleteSubAccount j c subAccountID posted
   \<and> (PostFormWithHeaders c (BaseURL c @ ''/'' @ endpointSubAccountAdd)
        (AddSubAccount_values p) CreateSubAccount = Inr resp \<longrightarrow>
        fst (AddSubAccount j c p posted) =
          (case Unmarshal_SubAccountAddResponse j (Body resp) of
             Inl err \<Rightarrow>
               Inl (''Error parsing add subaccount JSON response for subaccount ''
                      @ SubAccountName p @ '': '' @ err)
           | Inr r \<Rightarrow>
               if SubAccountAddResponse.Res r \<noteq> 0
               then Inl (''Error from Incapsula service when adding subaccount ''
                           @ SubAccountName p @ '': '' @ Body resp)
               else Inr r))
   \<and> (PostFormWithHeaders c (BaseURL c @ ''/'' @ endpointSubAccountList)
        (sendListSubAccountsRequest_values accountId pageNum) ReadSubAccount = Inr resp' \<longrightarrow>
        fst (sendListSubAccountsRequest j c accountId pageNum posted) =
          (case Unmarshal_SubAccountListResponse j (Body resp') of
             Inl err \<Rightarrow>
               Inl (''Error parsing subaccounts list JSON response for accountid: ''
                      @ Itoa accountId @ '' '' @ err @ [CHR 0x0A] @ ''response: '' @ Body resp')
           | Inr r \<Rightarrow> Inr (SubAccounts r)))
   \<and> (PostFormWithHeaders c (BaseURL c @ ''/'' @ endpointSubAccountDelete)
        [''sub_account_id'' \<mapsto> [Itoa subAccountID]] DeleteSubAccountOperation = Inr resp'' \<longrightarrow>
        fst (DeleteSubAccount j c subAccountID posted) =
          (case Unmarshal_SubAccountDeleteResponse j (Body resp'') of
             Inl err \<Rightarrow>
               Some (''Error parsing delete account JSON response for subaccount id: ''
                       @ Itoa subAccountID @ '': '' @ err)
           | Inr r \<Rightarrow>
               if SubAccountDeleteResponse.Res r \<noteq> 0
               then Some (''Error from Incapsula service when deleting subaccount id: ''
                            @ Itoa subAccountID @ '': '' @ Body resp'')
               else None))"
  apply (intro conjI impI)
  subgoal by (rule AddSubAccount_without_read_errors)
  subgoal by (rule sendListSubAccountsRequest_without_read_errors)
  subgoal by (simp only: GetSubAccount_def loop_without_read_errors)
  subgoal by (rule DeleteSubAccount_without_read_errors)
  subgoal by (rule AddSubAccount_on_response)
  subgoal by (rule sendListSubAccountsRequest_on_response)
  subgoal by (rule DeleteSubAccount_on_response)
  done

text \<open>
  A response that breaks off after its first byte gives a parse error, not the read
  error; a response whose reading fails after the whole JSON text gives the regular
  result.
\<close>

theorem read_error_discarded_witness:
  "PostFormWithHeaders client_cut (BaseURL client_cut @ ''/'' @ endpointSubAccountAdd)
      (AddSubAccount_values payload_name_only) CreateSubAccount =
     Inr \<lparr>Body = ''{'', ReadErr = Some ''unexpected EOF''\<rparr>
   \<and> fst (AddSubAccount json_service client_cut payload_name_only []) =
       Inl ''Error parsing add subaccount JSON response for subaccount x: unexpected end of JSON input''
   \<and> fst (DeleteSubAccount json_service client_cut 7 []) =
       Some ''Error parsing delete account JSON response for subaccount id: 7: unexpected end of JSON input''
   \<and> PostFormWithHeaders client_late_failure
        (BaseURL client_late_failure @ ''/'' @ endpointSubAccountAdd)
        (AddSubAccount_values payload_name_only) CreateSubAccount =
       Inr \<lparr>Body = body_added, ReadErr = Some ''connection reset by peer''\<rparr>
   \<and> fst (AddSubAccount json_service client_late_failure payload_name_only []) =
       Inr \<lparr>SubAccount = subAccount_wanted, Res = 0\<rparr>
   \<and> fst (DeleteSubAccount json_service client_late_failure 7 []) = None
   \<and> AddSubAccount json_service (without_read_errors client_late_failure) payload_name_only [] =
       AddSubAccount json_service client_late_failure payload_name_only []"
proof -
  have bodies: "''{'' \<noteq> body_added" "''{'' \<noteq> body_add_refused" "''{'' \<noteq> body_deleted"
    "''{'' \<noteq> body_delete_refused" "body_added \<noteq> body_add_refused"
    "body_deleted \<noteq> body_delete_refused"
    by (simp_all add: body_added_def body_add_refused_def body_deleted_def
        body_delete_refused_def)
  have cut:
    "fst (AddSubAccount json_service client_cut payload_name_only []) =
       Inl ''Error parsing add subaccount JSON response for subaccount x: unexpected end of JSON input''"
    "fst (DeleteSubAccount json_service client_cut 7 []) =
       Some ''Error parsing delete account JSON response for subaccount id: 7: unexpected end of JSON input''"
    using bodies read_error_discarded [where c = client_cut and j = json_service
        and p = payload_name_only and posted = "[]" and subAccountID = 7
        and resp = "\<lparr>Body = ''{'', ReadErr = Some ''unexpected EOF''\<rparr>"
        and resp'' = "\<lparr>Body = ''{'', ReadErr = Some ''unexpected EOF''\<rparr>"]
    by (simp_all add: client_cut_def json_service_def payload_name_only_def Itoa_7)
  have late:
    "fst (AddSubAccount json_service client_late_failure payload_name_only []) =
       Inr \<lparr>SubAccount = subAccount_wanted, Res = 0\<rparr>"
    "fst (DeleteSubAccount json_service client_late_failure 7 []) = None"
    "AddSubAccount json_service (without_read_errors client_late_failure) payload_name_only [] =
       AddSubAccount json_service client_late_failure payload_name_only []"
    using bodies read_error_discarded [where c = client_late_failure and j = json_service
        and p = payload_name_only and posted = "[]" and subAccountID = 7
        and resp = "\<lparr>Body = body_added, ReadErr = Some ''connection reset by peer''\<rparr>"
        and resp'' = "\<lparr>Body = body_deleted, ReadErr = Some ''connection reset by peer''\<rparr>"]
    by (simp_all add: client_late_failure_def json_service_def)
  show ?thesis
    using cut late by (simp add: client_cut_def client_late_failure_def)
qed

section \<open>JSON keys of the entities\<close>




text \<open>
  What the stray quote of the tag of \<^verbatim>\<open>LogsAccountID\<close> does: \<^verbatim>\<open>Lookup\<close> reads the value
  up to the first closing quote, so the key is kept and the option \<^verbatim>\<open>omitempty\<close>
  behind it is lost.
\<close>

lemma LogsAccountID_tag_value:
  \<open>Lookup ''json:"logs_account_id",omitempty"'' ''json'' = Some ''logs_account_id''\<close>
  by code_simp


end
